theory Spec2Isabelle
  imports Main "HOL-Library.Sublist"
begin

section \<open>Python exceptions as values\<close>

text \<open>
  Every \<^verbatim>\<open>raise\<close> of the sources is a value of the type \<open>error\<close>; a function that can
  raise returns \<open>error + 'a\<close>, with \<open>Inl\<close> for the exception. The payload of an
  exception is the argument it was constructed with. A pydantic validation error
  carries the list of the fields it rejects, in field order.
\<close>

datatype field_problem = Missing | WrongType

datatype error =
    ValueError string
  | KeyError string
  | AttributeError string
  | TypeError string
  | UnboundLocalError string
  | ImportError string
  | OperationalError string
  | RecursionError
  | ValidationError "(string \<times> field_problem) list"

definition quoted :: "string \<Rightarrow> string" where
  "quoted s = CHR 0x27 # s @ [CHR 0x27]"

text \<open>
  \<open>str e\<close> is Python's \<^verbatim>\<open>str(e)\<close>: the message, except for \<^verbatim>\<open>KeyError\<close>, which
  prints the \<^verbatim>\<open>repr\<close> of its argument, and for an unbound local, whose message is
  built by the interpreter from the name of the variable.
\<close>

fun field_problem_text :: "string \<times> field_problem \<Rightarrow> string" where
  "field_problem_text (f, Missing) = f @ '': field required; ''"
| "field_problem_text (f, WrongType) = f @ '': wrong type; ''"

fun str :: "error \<Rightarrow> string" where
  "str (ValueError m) = m"
| "str (KeyError m) = quoted m"
| "str (AttributeError m) = m"
| "str (TypeError m) = m"
| "str (UnboundLocalError v) =
     ''local variable '' @ quoted v @ '' referenced before assignment''"
| "str (ImportError m) = m"
| "str (OperationalError m) = m"
| "str RecursionError = ''maximum recursion depth exceeded''"
| "str (ValidationError ps) = concat (map field_problem_text ps)"

text \<open>An error names a string when the string occurs in its message.\<close>

definition names :: "error \<Rightarrow> string \<Rightarrow> bool" where
  "names e s = sublist s (str e)"

fun is_KeyError :: "error \<Rightarrow> bool" where
  "is_KeyError (KeyError m) = True"
| "is_KeyError e = False"

section \<open>Swarm operations (swarmstar/types/swarm\_operations.py)\<close>

text \<open>
  \<^verbatim>\<open>SwarmOperation\<close> is the base model: an id and an operation type. The subclasses
  add fields, which a record extension does as well. The declared type of
  \<^verbatim>\<open>operation_type\<close> is a \<^verbatim>\<open>Literal\<close> of six strings; an operation is well formed
  when its type is one of them.
\<close>

record swarm_operation =
  op_id :: string
  operation_type :: string

definition operation_types :: "string list" where
  "operation_types =
     [''spawn'', ''terminate'', ''node_failure'', ''blocking'',
      ''user_communication'', ''action'']"

definition well_formed :: "'a swarm_operation_scheme \<Rightarrow> bool" where
  "well_formed swarm_operation = (operation_type swarm_operation \<in> set operation_types)"

section \<open>The dispatcher (swarmstar/core.py)\<close>

text \<open>
  The four handlers are imported from modules outside this development, so they are
  parameters. A handler receives the configuration and the operation, acts on the
  world (the stores it writes to, of any type \<open>'w\<close>) and either raises or returns a
  Python object. What the dispatcher distinguishes in that object is whether it is
  \<^verbatim>\<open>None\<close>, a tuple, a list, or anything else.
\<close>

datatype 'op returned = ReturnsNone | ReturnsTuple "'op list" | ReturnsList "'op list" | ReturnsObject 'op

type_synonym ('cfg, 'a, 'op, 'w) handler =
  "'cfg \<Rightarrow> 'a swarm_operation_scheme \<Rightarrow> 'w \<Rightarrow> (error + 'op returned) \<times> 'w"

record ('cfg, 'a, 'op, 'w) handlers =
  spawn :: "('cfg, 'a, 'op, 'w) handler"
  blocking :: "('cfg, 'a, 'op, 'w) handler"
  terminate :: "('cfg, 'a, 'op, 'w) handler"
  failure :: "('cfg, 'a, 'op, 'w) handler"

definition operation_mapping ::
  "('cfg, 'a, 'op, 'w) handlers \<Rightarrow> (string \<times> ('cfg, 'a, 'op, 'w) handler) list" where
  "operation_mapping hs =
     [(''spawn'', spawn hs), (''blocking'', blocking hs),
      (''terminate'', terminate hs), (''node_failure'', failure hs)]"

text \<open>
  The two conversions after the call (lines 47 to 50): a tuple becomes a list, and a
  list is left as it is; \<^verbatim>\<open>None\<close> stays \<^verbatim>\<open>None\<close>; anything else is wrapped in a
  one-element list. The value returned is a list or \<^verbatim>\<open>None\<close>, which is
  \<open>'op list option\<close>.
\<close>

fun normalize :: "'op returned \<Rightarrow> 'op list option" where
  "normalize (ReturnsTuple xs) = Some xs"
| "normalize (ReturnsList xs) = Some xs"
| "normalize ReturnsNone = None"
| "normalize (ReturnsObject x) = Some [x]"

definition execute_swarmstar_operation ::
  "('cfg, 'a, 'op, 'w) handlers \<Rightarrow> 'cfg \<Rightarrow> 'a swarm_operation_scheme \<Rightarrow> 'w
     \<Rightarrow> (error + 'op list option) \<times> 'w" where
  "execute_swarmstar_operation hs swarm_config swarm_operation w =
     (case map_of (operation_mapping hs) (operation_type swarm_operation) of
        Some h \<Rightarrow>
          (case h swarm_config swarm_operation w of
             (Inl e, w') \<Rightarrow> (Inl e, w')
           | (Inr out, w') \<Rightarrow> (Inr (normalize out), w'))
      | None \<Rightarrow>
          (Inl (ValueError (''Unknown swarm operation type: '' @ operation_type swarm_operation)), w))"

section \<open>Termination operations and their construction\<close>

text \<open>
  \<^verbatim>\<open>TerminationOperation\<close> extends the base model with \<^verbatim>\<open>terminator_node_id\<close> and
  \<^verbatim>\<open>target_node_id\<close>, both of type \<^verbatim>\<open>str\<close> with no default, and an optional
  \<^verbatim>\<open>context\<close>. The keyword values at the call sites are strings and dictionaries.
\<close>

datatype py_value = PyStr string | PyDict "(string \<times> py_value) list"

record termination_operation = swarm_operation +
  terminator_node_id :: string
  target_node_id :: string
  op_context :: "(string \<times> py_value) list option"

text \<open>
  The constructor of a pydantic model validates its keyword arguments field by
  field, in the order of declaration: a field with no default is required, a field
  with a default (or a default factory) takes it when the keyword is absent, a
  keyword that is no field is ignored, and all problems found are raised together
  as one validation error. \<^verbatim>\<open>generate_uuid\<close> is a utility outside this development,
  so it is a parameter.
\<close>

definition required_str ::
  "string \<Rightarrow> (string \<times> py_value) list \<Rightarrow> (string \<times> field_problem) list + string" where
  "required_str field kwargs =
     (case map_of kwargs field of
        None \<Rightarrow> Inl [(field, Missing)]
      | Some (PyStr s) \<Rightarrow> Inr s
      | Some (PyDict d) \<Rightarrow> Inl [(field, WrongType)])"

fun problems :: "(string \<times> field_problem) list + 'a \<Rightarrow> (string \<times> field_problem) list" where
  "problems (Inl ps) = ps"
| "problems (Inr x) = []"

definition TerminationOperation ::
  "(string \<Rightarrow> string) \<Rightarrow> (string \<times> py_value) list \<Rightarrow> error + termination_operation" where
  "TerminationOperation generate_uuid kwargs =
     (let id_field =
            (case map_of kwargs ''id'' of
               None \<Rightarrow> Inr (generate_uuid ''termination_op'')
             | Some (PyStr s) \<Rightarrow> Inr s
             | Some (PyDict d) \<Rightarrow> Inl [(''id'', WrongType)]);
          type_field =
            (case map_of kwargs ''operation_type'' of
               None \<Rightarrow> Inr ''terminate''
             | Some v \<Rightarrow>
                 if v = PyStr ''terminate'' then Inr ''terminate''
                 else Inl [(''operation_type'', WrongType)]);
          terminator_field = required_str ''terminator_node_id'' kwargs;
          target_field = required_str ''target_node_id'' kwargs;
          context_field =
            (case map_of kwargs ''context'' of
               None \<Rightarrow> Inr None
             | Some (PyDict d) \<Rightarrow> Inr (Some d)
             | Some (PyStr s) \<Rightarrow> Inl [(''context'', WrongType)])
      in case (id_field, type_field, terminator_field, target_field, context_field) of
           (Inr i, Inr t, Inr terminator, Inr target, Inr c) \<Rightarrow>
             Inr \<lparr>op_id = i, operation_type = t, terminator_node_id = terminator,
                  target_node_id = target, op_context = c\<rparr>
         | _ \<Rightarrow>
             Inl (ValidationError
                   (problems id_field @ problems type_field @ problems terminator_field @
                    problems target_field @ problems context_field)))"

text \<open>
  \<^verbatim>\<open>Action.terminate_conversation\<close> (ask\_user\_questions.py, lines 335 to 348): it
  logs the completion, files the report and returns the operation it constructs.
  The class it constructs is imported from \<^verbatim>\<open>swarmstar.models\<close>, a module outside this
  development, so the constructor is a parameter that receives the keyword
  arguments of the call; its result is of any type \<open>'op\<close>. \<^verbatim>\<open>self.log\<close>,
  \<^verbatim>\<open>self.report\<close> and the decorator \<^verbatim>\<open>receive_completion_handler\<close> belong to the base
  action, outside this development as well: the first two are parameters that act
  on the world and may raise, and the decorator is a parameter applied to the body
  of the method.
\<close>

record swarm_node =
  swarm_node_id :: string
  message :: string

definition bind_w ::
  "('w \<Rightarrow> (error + 'a) \<times> 'w) \<Rightarrow> ('a \<Rightarrow> 'w \<Rightarrow> (error + 'b) \<times> 'w) \<Rightarrow> 'w \<Rightarrow> (error + 'b) \<times> 'w" where
  "bind_w m f w = (case m w of (Inl e, w') \<Rightarrow> (Inl e, w') | (Inr x, w') \<Rightarrow> f x w')"

definition newline :: char where
  "newline = CHR 0x0A"

definition final_report :: "swarm_node \<Rightarrow> string \<Rightarrow> string" where
  "final_report node completion =
     ''The agent created a final report after having a conversation with the user '' @
     ''with the intent of answering a given set of questions.'' @ [newline, newline] @
     ''Questions: '' @ message node @ [newline, newline] @ ''Report: '' @ completion"

definition terminate_conversation_body ::
  "(string \<times> string \<Rightarrow> 'w \<Rightarrow> (error + unit) \<times> 'w) \<Rightarrow> (string \<Rightarrow> 'w \<Rightarrow> (error + unit) \<times> 'w)
     \<Rightarrow> ((string \<times> py_value) list \<Rightarrow> error + 'op) \<Rightarrow> swarm_node \<Rightarrow> string \<Rightarrow> 'w
     \<Rightarrow> (error + 'op) \<times> 'w" where
  "terminate_conversation_body log report termination_operation node completion =
     bind_w (log (''ai'', completion)) (\<lambda>_.
     bind_w (report (final_report node completion)) (\<lambda>_ w.
       (termination_operation
          [(''node_id'', PyStr (swarm_node_id node)),
           (''terminator_node_id'', PyStr (swarm_node_id node))], w)))"

definition terminate_conversation ::
  "((string \<Rightarrow> 'w \<Rightarrow> (error + 'op) \<times> 'w) \<Rightarrow> 'h)
     \<Rightarrow> (string \<times> string \<Rightarrow> 'w \<Rightarrow> (error + unit) \<times> 'w) \<Rightarrow> (string \<Rightarrow> 'w \<Rightarrow> (error + unit) \<times> 'w)
     \<Rightarrow> ((string \<times> py_value) list \<Rightarrow> error + 'op) \<Rightarrow> swarm_node \<Rightarrow> 'h" where
  "terminate_conversation receive_completion_handler log report termination_operation node =
     receive_completion_handler (terminate_conversation_body log report termination_operation node)"

text \<open>
  The construction in the unit test (test\_simple\_termination.py, lines 41 to 43);
  the class is imported from \<^verbatim>\<open>swarmstar.swarm.types\<close>, outside this development, so
  the constructor is a parameter here too.
\<close>

definition test_terminate_operation ::
  "((string \<times> py_value) list \<Rightarrow> error + 'op) \<Rightarrow> string \<Rightarrow> error + 'op" where
  "test_terminate_operation termination_operation second_node_id =
     termination_operation [(''node_id'', PyStr second_node_id)]"

section \<open>The metadata tree and the portal clone (swarmstar/abstract/metadata\_tree.py)\<close>

text \<open>
  A node of the metadata tree is a document with the keys \<^verbatim>\<open>id\<close> and \<^verbatim>\<open>type\<close> and,
  possibly, \<^verbatim>\<open>children_ids\<close>; \<open>children_ids n = None\<close> is the document without that
  key (or with \<^verbatim>\<open>None\<close> there), which is what \<^verbatim>\<open>node.get("children_ids", None)\<close> tells
  apart. Other keys of the document are the extension of the record.
\<close>

record metadata_node =
  node_id :: string
  node_type :: string
  children_ids :: "string list option"

text \<open>
  \<^verbatim>\<open>get_internal_sqlite\<close> (the read of the shared store) and \<^verbatim>\<open>db.insert\<close> (the write
  to the instance's store) are imported from modules outside this development: they
  are the parameters \<open>get\<close> and \<open>ins\<close>. Both may raise. The read does not depend on the
  instance's store, whose state has any type \<open>'db\<close>.

  The \<^verbatim>\<open>for\<close> loop over the children stops at the first exception.
\<close>

fun for_each_child ::
  "('n \<Rightarrow> 'db \<Rightarrow> error + 'db) \<Rightarrow> (string \<Rightarrow> error + 'n) \<Rightarrow> string list \<Rightarrow> 'db \<Rightarrow> error + 'db" where
  "for_each_child body get [] db = Inr db"
| "for_each_child body get (child_id # rest) db =
     (case get child_id of
        Inl e \<Rightarrow> Inl e
      | Inr child_node \<Rightarrow>
          (case body child_node db of
             Inl e \<Rightarrow> Inl e
           | Inr db' \<Rightarrow> for_each_child body get rest db'))"

text \<open>
  \<^verbatim>\<open>recursive_helper\<close> calls itself once for every child, to any depth the shared store
  has; the interpreter allows a bounded number of nested calls and raises
  \<^verbatim>\<open>RecursionError\<close> beyond it. The first argument is the number of nested calls of
  the helper that the interpreter still allows, so the function is total, also on a
  store whose children lead back to an ancestor.
\<close>

fun recursive_helper ::
  "nat \<Rightarrow> (string \<Rightarrow> string \<Rightarrow> error + 'a metadata_node_scheme)
     \<Rightarrow> (string \<Rightarrow> string \<Rightarrow> 'a metadata_node_scheme \<Rightarrow> 'db \<Rightarrow> error + 'db)
     \<Rightarrow> string \<Rightarrow> string \<Rightarrow> 'a metadata_node_scheme \<Rightarrow> 'db \<Rightarrow> error + 'db" where
  "recursive_helper 0 get ins collection swarm_id node db = Inl RecursionError"
| "recursive_helper (Suc depth) get ins collection swarm_id node db =
     (case (if node_type node = ''portal''
            then ins collection (swarm_id @ ''_'' @ node_id node) node db
            else Inr db) of
        Inl e \<Rightarrow> Inl e
      | Inr db' \<Rightarrow>
          (case children_ids node of
             None \<Rightarrow> Inr db'
           | Some ids \<Rightarrow>
               if ids = [] then Inr db'
               else for_each_child (recursive_helper depth get ins collection swarm_id)
                      (get collection) ids db'))"

definition portal_clone ::
  "nat \<Rightarrow> (string \<Rightarrow> string \<Rightarrow> error + 'a metadata_node_scheme)
     \<Rightarrow> (string \<Rightarrow> string \<Rightarrow> 'a metadata_node_scheme \<Rightarrow> 'db \<Rightarrow> error + 'db)
     \<Rightarrow> string \<Rightarrow> string \<Rightarrow> 'db \<Rightarrow> error + 'db" where
  "portal_clone depth get ins collection swarm_id db =
     (case get collection ''root'' of
        Inl e \<Rightarrow> Inl e
      | Inr node \<Rightarrow> recursive_helper depth get ins collection swarm_id node db)"

text \<open>
  What the clone is compared with. The part of the shared store that is reachable
  from a node, when it is finite, is a tree of nodes: \<open>shared_tree get t\<close> says that
  the subtrees of every node of \<open>t\<close> are, in order, what the store returns for the ids
  of its \<^verbatim>\<open>children_ids\<close>. The nodes a depth-first walk visits are \<open>preorder t\<close>; the
  shadow copies of an instance are the portal nodes among them, each under its key.
\<close>

datatype 'n mtree = MNode 'n "'n mtree list"

fun root_node :: "'n mtree \<Rightarrow> 'n" where
  "root_node (MNode n ts) = n"

definition child_ids :: "'a metadata_node_scheme \<Rightarrow> string list" where
  "child_ids n = (case children_ids n of None \<Rightarrow> [] | Some ids \<Rightarrow> ids)"

fun shared_tree :: "(string \<Rightarrow> error + 'a metadata_node_scheme) \<Rightarrow> 'a metadata_node_scheme mtree \<Rightarrow> bool" where
  "shared_tree get (MNode n ts) =
     (map get (child_ids n) = map (\<lambda>t. Inr (root_node t)) ts \<and> list_all (shared_tree get) ts)"

fun preorder :: "'n mtree \<Rightarrow> 'n list" where
  "preorder (MNode n ts) = n # concat (map preorder ts)"

fun height :: "'n mtree \<Rightarrow> nat" where
  "height (MNode n ts) = Suc (fold max (map height ts) 0)"

definition shadow_copies :: "string \<Rightarrow> 'a metadata_node_scheme mtree \<Rightarrow> (string \<times> 'a metadata_node_scheme) list" where
  "shadow_copies swarm_id t =
     map (\<lambda>n. (swarm_id @ ''_'' @ node_id n, n)) (filter (\<lambda>n. node_type n = ''portal'') (preorder t))"

fun insert_all ::
  "(string \<Rightarrow> string \<Rightarrow> 'n \<Rightarrow> 'db \<Rightarrow> error + 'db) \<Rightarrow> string \<Rightarrow> (string \<times> 'n) list \<Rightarrow> 'db \<Rightarrow> error + 'db" where
  "insert_all ins collection [] db = Inr db"
| "insert_all ins collection ((key, n) # rest) db =
     (case ins collection key n db of
        Inl e \<Rightarrow> Inl e
      | Inr db' \<Rightarrow> insert_all ins collection rest db')"

text \<open>
  A store that records every insert it receives, in order, and refuses none: the
  instance's store as the list of the documents written to it.
\<close>

definition record_insert ::
  "string \<Rightarrow> string \<Rightarrow> 'n \<Rightarrow> (string \<times> string \<times> 'n) list \<Rightarrow> error + (string \<times> string \<times> 'n) list" where
  "record_insert collection key n db = Inr (db @ [(collection, key, n)])"

section \<open>The action resolver (aga\_swarm/actions/swarm/action\_types/action.py)\<close>

text \<open>
  \<^verbatim>\<open>swarm_id.configs\<close> is an object read with \<^verbatim>\<open>getattr\<close>: an attribute is absent
  (\<^verbatim>\<open>getattr\<close> raises \<^verbatim>\<open>AttributeError\<close>, with the interpreter's message), or it holds
  \<^verbatim>\<open>None\<close>, or it holds a value. In \<open>attrs\<close> these are \<open>None\<close>, \<open>Some None\<close> and
  \<open>Some (Some v)\<close>.
\<close>

record 'v config_object =
  type_name :: string
  attrs :: "string \<Rightarrow> 'v option option"

record 'v SwarmID =
  configs :: "'v config_object"

record action_metadata =
  required_configs :: "string list"

definition getattr :: "'v config_object \<Rightarrow> string \<Rightarrow> error + 'v option" where
  "getattr obj attr =
     (case attrs obj attr of
        None \<Rightarrow> Inl (AttributeError (quoted (type_name obj) @ '' object has no attribute '' @ quoted attr))
      | Some v \<Rightarrow> Inr v)"

text \<open>
  The loop over the required configuration keys (lines 19 to 25). A \<^verbatim>\<open>KeyError\<close>
  raised inside the \<^verbatim>\<open>try\<close> is replaced by one with the message of line 25; any
  other exception leaves the function as it is.
\<close>

definition config_not_found :: "string \<Rightarrow> error" where
  "config_not_found config =
     KeyError (''Config '' @ config @ '' not found in swarm configs or value is None'')"

fun inject_required_configs ::
  "'v config_object \<Rightarrow> string list \<Rightarrow> (string \<Rightarrow> 'v option) \<Rightarrow> error + (string \<Rightarrow> 'v option)" where
  "inject_required_configs cfgs [] params = Inr params"
| "inject_required_configs cfgs (config # rest) params =
     (case getattr cfgs config of
        Inl e \<Rightarrow> if is_KeyError e then Inl (config_not_found config) else Inl e
      | Inr None \<Rightarrow> Inl (config_not_found config)
      | Inr (Some v) \<Rightarrow> inject_required_configs cfgs rest (params(config \<mapsto> v)))"

text \<open>
  A local variable is bound or not; reading one that is not bound raises
  \<^verbatim>\<open>UnboundLocalError\<close>. Lines 28 to 30 compute the module name from the local
  \<^verbatim>\<open>action_type\<close>: every \<^verbatim>\<open>/\<close> becomes a dot and a final \<^verbatim>\<open>.py\<close> is cut off.
\<close>

definition read_local :: "string \<Rightarrow> 'a option \<Rightarrow> error + 'a" where
  "read_local name binding = (case binding of None \<Rightarrow> Inl (UnboundLocalError name) | Some v \<Rightarrow> Inr v)"

definition replace_char :: "char \<Rightarrow> char \<Rightarrow> string \<Rightarrow> string" where
  "replace_char a b s = map (\<lambda>c. if c = a then b else c) s"

definition module_path :: "string option \<Rightarrow> error + string" where
  "module_path action_type =
     (case read_local ''action_type'' action_type of
        Inl e \<Rightarrow> Inl e
      | Inr s \<Rightarrow>
          (let dotted = replace_char CHR ''/'' CHR ''.'' s
           in Inr (if suffix ''.py'' dotted then take (length dotted - 3) dotted else dotted)))"

text \<open>
  Lines 31 to 35: the import (the interpreter's \<^verbatim>\<open>__import__\<close>, a parameter, which may
  raise) and the lookup of \<^verbatim>\<open>main\<close> in the module.
\<close>

record ('p, 'r) py_module =
  main_attr :: "('p \<Rightarrow> error + 'r) option"

definition find_main ::
  "(string \<Rightarrow> error + ('p, 'r) py_module) \<Rightarrow> string \<Rightarrow> error + ('p \<Rightarrow> error + 'r)" where
  "find_main import_module name =
     (case import_module name of
        Inl e \<Rightarrow> Inl e
      | Inr m \<Rightarrow>
          (case main_attr m of
             Some main_function \<Rightarrow> Inr main_function
           | None \<Rightarrow> Inl (AttributeError ''No main function found in the script'')))"

text \<open>
  The resolver. \<^verbatim>\<open>get_action_space_metadata\<close> is imported from a module outside this
  development, so it is a parameter; the metadata is indexed by action id, and an id
  with no entry raises \<^verbatim>\<open>KeyError\<close>. Nothing assigns the local \<^verbatim>\<open>action_type\<close> before
  line 28 reads it (the parameter is called \<^verbatim>\<open>action_id\<close>), so its binding there is
  \<open>None\<close>.
\<close>

definition action ::
  "(('v, 'a) SwarmID_scheme \<Rightarrow> error + (string \<Rightarrow> 'b action_metadata_scheme option))
     \<Rightarrow> (string \<Rightarrow> error + (string \<Rightarrow> 'v option, 'r) py_module)
     \<Rightarrow> string \<Rightarrow> (string \<Rightarrow> 'v option) \<Rightarrow> ('v, 'a) SwarmID_scheme \<Rightarrow> error + 'r" where
  "action get_action_space_metadata import_module action_id params swarm_id =
     (case get_action_space_metadata swarm_id of
        Inl e \<Rightarrow> Inl e
      | Inr action_space_metadata \<Rightarrow>
          (case action_space_metadata action_id of
             None \<Rightarrow> Inl (KeyError action_id)
           | Some metadata \<Rightarrow>
               (case inject_required_configs (configs swarm_id) (required_configs metadata) params of
                  Inl e \<Rightarrow> Inl e
                | Inr params' \<Rightarrow>
                    (case module_path None of
                       Inl e \<Rightarrow> Inl e
                     | Inr name \<Rightarrow>
                         (case find_main import_module name of
                            Inl e \<Rightarrow> Inl e
                          | Inr main_function \<Rightarrow> main_function (params'(''action_type'' := None)))))))"

section \<open>The key-value store (scripts/create\_sqlite3\_db.py)\<close>

text \<open>
  The file at a path cannot be opened, or it is a database without the table
  \<^verbatim>\<open>kv_store\<close>, or it holds the table: a key (the primary key) has at most one row,
  whose value is text or \<^verbatim>\<open>NULL\<close>.
\<close>

datatype sqlite_file = Unopenable | NoTable | KvStore "string \<Rightarrow> string option option"

text \<open>
  The body of the \<^verbatim>\<open>try\<close> (lines 30 to 34): \<^verbatim>\<open>fetchone()\<close> returns the row or \<^verbatim>\<open>None\<close>,
  and indexing \<^verbatim>\<open>None\<close> raises \<^verbatim>\<open>TypeError\<close>.
\<close>

definition fetchone :: "(string \<Rightarrow> string option option) \<Rightarrow> string \<Rightarrow> string option list option" where
  "fetchone table key = (case table key of None \<Rightarrow> None | Some v \<Rightarrow> Some [v])"

definition first_column :: "string option list option \<Rightarrow> error + string option" where
  "first_column row =
     (case row of
        None \<Rightarrow> Inl (TypeError (quoted ''NoneType'' @ '' object is not subscriptable''))
      | Some [] \<Rightarrow> Inl (TypeError ''tuple index out of range'')
      | Some (v # vs) \<Rightarrow> Inr v)"

definition select_value :: "(string \<Rightarrow> sqlite_file) \<Rightarrow> string \<Rightarrow> string \<Rightarrow> error + string option" where
  "select_value files sqlite3_db_path key =
     (case files sqlite3_db_path of
        Unopenable \<Rightarrow> Inl (OperationalError ''unable to open database file'')
      | NoTable \<Rightarrow> Inl (OperationalError ''no such table: kv_store'')
      | KvStore table \<Rightarrow> first_column (fetchone table key))"

text \<open>The \<^verbatim>\<open>except\<close> clause (lines 35 and 36) turns every exception into a \<^verbatim>\<open>ValueError\<close>.\<close>

definition retrieve_value_from_sqlite3 ::
  "(string \<Rightarrow> sqlite_file) \<Rightarrow> string \<Rightarrow> string \<Rightarrow> error + string option" where
  "retrieve_value_from_sqlite3 files sqlite3_db_path key =
     (case select_value files sqlite3_db_path key of
        Inl e \<Rightarrow> Inl (ValueError (''Failed to retrieve value from SQLite3: '' @ str e))
      | Inr v \<Rightarrow> Inr v)"

section \<open>Concrete inputs\<close>

text \<open>
  Handlers that count their calls in the world (a natural number) and return the
  four kinds of object the dispatcher tells apart.
\<close>

definition demo_handlers :: "(unit, unit, swarm_operation, nat) handlers" where
  "demo_handlers =
     \<lparr>spawn = (\<lambda>c operation w. (Inr ReturnsNone, Suc w)),
      blocking = (\<lambda>c operation w.
        (Inr (ReturnsObject \<lparr>op_id = ''b'', operation_type = ''blocking''\<rparr>), Suc w)),
      terminate = (\<lambda>c operation w.
        (Inr (ReturnsTuple [\<lparr>op_id = ''t1'', operation_type = ''terminate''\<rparr>,
                            \<lparr>op_id = ''t2'', operation_type = ''spawn''\<rparr>]), Suc w)),
      failure = (\<lambda>c operation w.
        (Inr (ReturnsList [\<lparr>op_id = ''f1'', operation_type = ''spawn''\<rparr>,
                           \<lparr>op_id = ''f2'', operation_type = ''terminate''\<rparr>]), Suc w))\<rparr>"

text \<open>The documents a recording store holds for the shadow copies of a tree.\<close>

definition shadow_documents ::
  "string \<Rightarrow> string \<Rightarrow> 'a metadata_node_scheme mtree \<Rightarrow> (string \<times> string \<times> 'a metadata_node_scheme) list" where
  "shadow_documents collection swarm_id t =
     map (\<lambda>(key, n). (collection, key, n)) (shadow_copies swarm_id t)"

text \<open>
  A shared store of four nodes: a folder \<^verbatim>\<open>root\<close> with the children \<^verbatim>\<open>a\<close> (a portal
  without the key \<^verbatim>\<open>children_ids\<close>) and \<^verbatim>\<open>b\<close> (a folder), and below \<^verbatim>\<open>b\<close> the portal
  \<^verbatim>\<open>c\<close> (with an empty list of children). An id that is not stored raises.
\<close>

definition demo_node :: "string \<Rightarrow> string \<Rightarrow> string list option \<Rightarrow> metadata_node" where
  "demo_node i ty ids = \<lparr>node_id = i, node_type = ty, children_ids = ids\<rparr>"

definition demo_nodes :: "(string \<times> metadata_node) list" where
  "demo_nodes =
     [(''root'', demo_node ''root'' ''folder'' (Some [''a'', ''b''])),
      (''a'', demo_node ''a'' ''portal'' None),
      (''b'', demo_node ''b'' ''folder'' (Some [''c''])),
      (''c'', demo_node ''c'' ''portal'' (Some []))]"

definition demo_get :: "string \<Rightarrow> string \<Rightarrow> error + metadata_node" where
  "demo_get collection i = (case map_of demo_nodes i of None \<Rightarrow> Inl (KeyError i) | Some n \<Rightarrow> Inr n)"

definition demo_tree :: "metadata_node mtree" where
  "demo_tree =
     MNode (demo_node ''root'' ''folder'' (Some [''a'', ''b'']))
       [MNode (demo_node ''a'' ''portal'' None) [],
        MNode (demo_node ''b'' ''folder'' (Some [''c'']))
          [MNode (demo_node ''c'' ''portal'' (Some [])) []]]"

text \<open>
  A configuration key is unset when the attribute is absent or holds \<^verbatim>\<open>None\<close>; the first
  unset key of a list is the first one the loop stops at.
\<close>

definition unset :: "'v config_object \<Rightarrow> string \<Rightarrow> bool" where
  "unset cfgs config = (case attrs cfgs config of Some (Some v) \<Rightarrow> False | _ \<Rightarrow> True)"

definition first_unset :: "'v config_object \<Rightarrow> string list \<Rightarrow> string option" where
  "first_unset cfgs required = find (unset cfgs) required"

text \<open>
  An instance whose configuration holds \<^verbatim>\<open>openai_key\<close>, holds \<^verbatim>\<open>None\<close> for
  \<^verbatim>\<open>azure_key\<close> and has no other attribute; three actions with their required keys; an
  import that finds, for every name, a module without \<^verbatim>\<open>main\<close>.
\<close>

definition demo_configs :: "string config_object" where
  "demo_configs =
     \<lparr>type_name = ''Configs'',
      attrs = map_of [(''openai_key'', Some ''sk-1''), (''azure_key'', None)]\<rparr>"

definition demo_swarm_id :: "string SwarmID" where
  "demo_swarm_id = \<lparr>configs = demo_configs\<rparr>"

definition demo_actions :: "(string \<times> action_metadata) list" where
  "demo_actions =
     [(''actions/ok.py'', \<lparr>required_configs = [''openai_key'']\<rparr>),
      (''actions/none.py'', \<lparr>required_configs = [''openai_key'', ''azure_key'']\<rparr>),
      (''actions/two.py'', \<lparr>required_configs = [''mongo_uri'', ''root_path'']\<rparr>)]"

definition demo_metadata :: "string SwarmID \<Rightarrow> error + (string \<Rightarrow> action_metadata option)" where
  "demo_metadata swarm_id = Inr (map_of demo_actions)"

definition demo_import :: "string \<Rightarrow> error + (string \<Rightarrow> string option, unit) py_module" where
  "demo_import name = Inr \<lparr>main_attr = None\<rparr>"

text \<open>
  A file system with one key-value database (a stored key, and a key whose value is
  \<^verbatim>\<open>NULL\<close>), one database without the table, and no other file that opens.
\<close>

definition demo_files :: "string \<Rightarrow> sqlite_file" where
  "demo_files path =
     (if path = ''kv.sqlite3'' then KvStore (map_of [(''stored'', Some ''{}''), (''null'', None)])
      else if path = ''fresh.sqlite3'' then NoTable
      else Unopenable)"

text \<open>A node, a log and a report that append to a list, and an id generator.\<close>

definition demo_log :: "string \<times> string \<Rightarrow> string list \<Rightarrow> (error + unit) \<times> string list" where
  "demo_log entry w = (Inr (), w @ [fst entry @ '': '' @ snd entry])"

definition demo_report :: "string \<Rightarrow> string list \<Rightarrow> (error + unit) \<times> string list" where
  "demo_report text w = (Inr (), w @ [''report''])"

definition demo_uuid :: "string \<Rightarrow> string" where
  "demo_uuid p = p @ ''_0001''"

text \<open>A constructor that accepts every call and returns the keywords it was given.\<close>

definition passed_keywords :: "(string \<times> py_value) list \<Rightarrow> error + (string \<times> py_value) list" where
  "passed_keywords kwargs = Inr kwargs"

definition demo_swarm_node :: swarm_node where
  "demo_swarm_node = \<lparr>swarm_node_id = ''n1'', message = ''What is the goal?''\<rparr>"

section \<open>The dispatcher: normalization and unknown types\<close>

lemma mapping_keys:
  "map fst (operation_mapping hs) = [''spawn'', ''blocking'', ''terminate'', ''node_failure'']"
  by (simp add: operation_mapping_def)

lemma execute_unregistered:
  "map_of (operation_mapping hs) (operation_type swarm_operation) = None \<Longrightarrow>
   execute_swarmstar_operation hs swarm_config swarm_operation w =
     (Inl (ValueError (''Unknown swarm operation type: '' @ operation_type swarm_operation)), w)"
  by (simp add: execute_swarmstar_operation_def)

lemma execute_registered:
  "map_of (operation_mapping hs) (operation_type swarm_operation) = Some h \<Longrightarrow>
   h swarm_config swarm_operation w = (Inr out, w') \<Longrightarrow>
   execute_swarmstar_operation hs swarm_config swarm_operation w = (Inr (normalize out), w')"
  by (simp add: execute_swarmstar_operation_def)

text \<open>
  C1, as the code has it. The claim says that a handler returning \<^verbatim>\<open>None\<close> yields the
  empty list; the dispatcher returns \<^verbatim>\<open>None\<close> itself (its declared return type is a
  list or \<^verbatim>\<open>None\<close>). At the handlers above, the spawn handler returns \<^verbatim>\<open>None\<close> and so
  does the dispatcher.
\<close>

theorem execute_none_counterexample:
  "execute_swarmstar_operation demo_handlers () \<lparr>op_id = ''1'', operation_type = ''spawn''\<rparr> 0
     = (Inr None, 1)
   \<and> execute_swarmstar_operation demo_handlers () \<lparr>op_id = ''1'', operation_type = ''spawn''\<rparr> 0
     \<noteq> (Inr (Some []), 1)"
  by (simp add: execute_swarmstar_operation_def operation_mapping_def demo_handlers_def)

text \<open>
  C1, amended: for an operation whose type has a registered handler, when the handler
  returns, the dispatcher returns \<^verbatim>\<open>None\<close> for \<^verbatim>\<open>None\<close>, the one-element list for a
  single operation, and the list of the elements, in order, for a tuple or a list;
  the world is as the handler left it.
\<close>

theorem execute_normalizes_output:
  assumes "map_of (operation_mapping hs) (operation_type swarm_operation) = Some h"
    and "h swarm_config swarm_operation w = (Inr out, w')"
  shows "execute_swarmstar_operation hs swarm_config swarm_operation w =
           (Inr (case out of
                   ReturnsNone \<Rightarrow> None
                 | ReturnsObject x \<Rightarrow> Some [x]
                 | ReturnsTuple xs \<Rightarrow> Some xs
                 | ReturnsList xs \<Rightarrow> Some xs), w')"
  using execute_registered [OF assms] by (cases out) simp_all

theorem execute_normalizes_output_witness:
  "execute_swarmstar_operation demo_handlers () \<lparr>op_id = ''1'', operation_type = ''spawn''\<rparr> 0
     = (Inr None, 1)
   \<and> execute_swarmstar_operation demo_handlers () \<lparr>op_id = ''2'', operation_type = ''blocking''\<rparr> 0
     = (Inr (Some [\<lparr>op_id = ''b'', operation_type = ''blocking''\<rparr>]), 1)
   \<and> execute_swarmstar_operation demo_handlers () \<lparr>op_id = ''3'', operation_type = ''terminate''\<rparr> 0
     = (Inr (Some [\<lparr>op_id = ''t1'', operation_type = ''terminate''\<rparr>,
                   \<lparr>op_id = ''t2'', operation_type = ''spawn''\<rparr>]), 1)
   \<and> execute_swarmstar_operation demo_handlers () \<lparr>op_id = ''4'', operation_type = ''node_failure''\<rparr> 0
     = (Inr (Some [\<lparr>op_id = ''f1'', operation_type = ''spawn''\<rparr>,
                   \<lparr>op_id = ''f2'', operation_type = ''terminate''\<rparr>]), 1)"
proof -
  have a: "execute_swarmstar_operation demo_handlers () \<lparr>op_id = ''1'', operation_type = ''spawn''\<rparr> 0
             = (Inr None, 1)"
    using execute_normalizes_output [of demo_handlers "\<lparr>op_id = ''1'', operation_type = ''spawn''\<rparr>"
        "spawn demo_handlers" "()" 0 ReturnsNone 1]
    by (simp add: operation_mapping_def demo_handlers_def)
  have b: "execute_swarmstar_operation demo_handlers () \<lparr>op_id = ''2'', operation_type = ''blocking''\<rparr> 0
             = (Inr (Some [\<lparr>op_id = ''b'', operation_type = ''blocking''\<rparr>]), 1)"
    using execute_normalizes_output [of demo_handlers "\<lparr>op_id = ''2'', operation_type = ''blocking''\<rparr>"
        "blocking demo_handlers" "()" 0 "ReturnsObject \<lparr>op_id = ''b'', operation_type = ''blocking''\<rparr>" 1]
    by (simp add: operation_mapping_def demo_handlers_def)
  have c: "execute_swarmstar_operation demo_handlers () \<lparr>op_id = ''3'', operation_type = ''terminate''\<rparr> 0
             = (Inr (Some [\<lparr>op_id = ''t1'', operation_type = ''terminate''\<rparr>,
                           \<lparr>op_id = ''t2'', operation_type = ''spawn''\<rparr>]), 1)"
    using execute_normalizes_output [of demo_handlers "\<lparr>op_id = ''3'', operation_type = ''terminate''\<rparr>"
        "terminate demo_handlers" "()" 0
        "ReturnsTuple [\<lparr>op_id = ''t1'', operation_type = ''terminate''\<rparr>,
                       \<lparr>op_id = ''t2'', operation_type = ''spawn''\<rparr>]" 1]
    by (simp add: operation_mapping_def demo_handlers_def)
  have d: "execute_swarmstar_operation demo_handlers () \<lparr>op_id = ''4'', operation_type = ''node_failure''\<rparr> 0
             = (Inr (Some [\<lparr>op_id = ''f1'', operation_type = ''spawn''\<rparr>,
                           \<lparr>op_id = ''f2'', operation_type = ''terminate''\<rparr>]), 1)"
    using execute_normalizes_output [of demo_handlers "\<lparr>op_id = ''4'', operation_type = ''node_failure''\<rparr>"
        "failure demo_handlers" "()" 0
        "ReturnsList [\<lparr>op_id = ''f1'', operation_type = ''spawn''\<rparr>,
                      \<lparr>op_id = ''f2'', operation_type = ''terminate''\<rparr>]" 1]
    by (simp add: operation_mapping_def demo_handlers_def)
  from a b c d show ?thesis by blast
qed

text \<open>
  C2: for an operation whose type is not a key of the handler mapping, the
  dispatcher raises \<^verbatim>\<open>ValueError\<close> at once. This holds for every choice of the four
  handlers and leaves the world as it was, so no handler is invoked, and the
  dispatcher makes no second attempt: the error is its result.
\<close>

theorem unknown_type_raises:
  assumes "operation_type swarm_operation \<notin> set (map fst (operation_mapping hs))"
  shows "execute_swarmstar_operation hs swarm_config swarm_operation w =
           (Inl (ValueError (''Unknown swarm operation type: '' @ operation_type swarm_operation)), w)"
proof -
  from assms have "map_of (operation_mapping hs) (operation_type swarm_operation) = None"
    by (simp add: map_of_eq_None_iff)
  then show ?thesis by (rule execute_unregistered)
qed

theorem unknown_type_raises_witness:
  "''resume'' \<notin> set (map fst (operation_mapping demo_handlers))
   \<and> execute_swarmstar_operation demo_handlers () \<lparr>op_id = ''5'', operation_type = ''resume''\<rparr> 0
       = (Inl (ValueError ''Unknown swarm operation type: resume''), 0)"
proof -
  have h: "operation_type \<lparr>op_id = ''5'', operation_type = ''resume''\<rparr>
             \<notin> set (map fst (operation_mapping demo_handlers))"
    by (simp add: operation_mapping_def)
  show ?thesis
    using h unknown_type_raises [OF h, of "()" 0] by simp
qed

text \<open>
  C9: \<^verbatim>\<open>user_communication\<close> and \<^verbatim>\<open>action\<close> are members of the declared union of
  operation types, the handler mapping has the four keys \<^verbatim>\<open>spawn\<close>, \<^verbatim>\<open>blocking\<close>,
  \<^verbatim>\<open>terminate\<close> and \<^verbatim>\<open>node_failure\<close> only, and the dispatcher raises the
  unknown-type error for every well-formed operation of either type.
\<close>

theorem declared_types_without_handler:
  assumes "well_formed swarm_operation"
    and "operation_type swarm_operation = ''user_communication''
         \<or> operation_type swarm_operation = ''action''"
  shows "execute_swarmstar_operation hs swarm_config swarm_operation w =
           (Inl (ValueError (''Unknown swarm operation type: '' @ operation_type swarm_operation)), w)
         \<and> map fst (operation_mapping hs) = [''spawn'', ''blocking'', ''terminate'', ''node_failure'']
         \<and> ''user_communication'' \<in> set operation_types \<and> ''action'' \<in> set operation_types"
proof -
  from assms(2) have "map_of (operation_mapping hs) (operation_type swarm_operation) = None"
    by (auto simp: operation_mapping_def)
  then show ?thesis
    by (simp add: execute_unregistered mapping_keys operation_types_def)
qed

theorem declared_types_without_handler_witness:
  "well_formed \<lparr>op_id = ''6'', operation_type = ''user_communication''\<rparr>
   \<and> well_formed \<lparr>op_id = ''7'', operation_type = ''action''\<rparr>
   \<and> execute_swarmstar_operation demo_handlers () \<lparr>op_id = ''6'', operation_type = ''user_communication''\<rparr> 0
       = (Inl (ValueError ''Unknown swarm operation type: user_communication''), 0)
   \<and> execute_swarmstar_operation demo_handlers () \<lparr>op_id = ''7'', operation_type = ''action''\<rparr> 0
       = (Inl (ValueError ''Unknown swarm operation type: action''), 0)"
proof -
  have w1: "well_formed \<lparr>op_id = ''6'', operation_type = ''user_communication''\<rparr>"
    by (simp add: well_formed_def operation_types_def)
  have w2: "well_formed \<lparr>op_id = ''7'', operation_type = ''action''\<rparr>"
    by (simp add: well_formed_def operation_types_def)
  show ?thesis
    using w1 w2
      declared_types_without_handler [OF w1, of demo_handlers "()" 0]
      declared_types_without_handler [OF w2, of demo_handlers "()" 0]
    by simp
qed

section \<open>The portal clone\<close>

lemma insert_all_append:
  "insert_all ins c (xs @ ys) db =
     (case insert_all ins c xs db of Inl e \<Rightarrow> Inl e | Inr db' \<Rightarrow> insert_all ins c ys db')"
  by (induction xs arbitrary: db) (auto split: sum.splits)

lemma shadow_copies_MNode:
  "shadow_copies S (MNode n ts) =
     (if node_type n = ''portal'' then [(S @ ''_'' @ node_id n, n)] else [])
       @ concat (map (shadow_copies S) ts)"
  by (simp add: shadow_copies_def [abs_def] filter_concat map_concat comp_def)

lemma fold_max_ge: "(a::nat) \<le> fold max xs a"
proof (induction xs arbitrary: a)
  case Nil
  show ?case by simp
next
  case (Cons x xs)
  have "a \<le> max x a" by simp
  also have "\<dots> \<le> fold max xs (max x a)" by (rule Cons.IH)
  finally show ?case by simp
qed

lemma fold_max_member: "x \<in> set xs \<Longrightarrow> (x::nat) \<le> fold max xs a"
proof (induction xs arbitrary: a)
  case Nil
  then show ?case by simp
next
  case (Cons y ys)
  show ?case
  proof (cases "x = y")
    case True
    have "x \<le> max y a" using True by simp
    also have "\<dots> \<le> fold max ys (max y a)" by (rule fold_max_ge)
    finally show ?thesis by simp
  next
    case False
    with Cons.prems have "x \<in> set ys" by simp
    then show ?thesis using Cons.IH by simp
  qed
qed

lemma for_each_child_subtrees:
  assumes "\<And>t db. t \<in> set ts \<Longrightarrow> body (root_node t) db = insert_all ins c (shadow_copies S t) db"
    and "map get ids = map (\<lambda>t. Inr (root_node t)) ts"
  shows "for_each_child body get ids db = insert_all ins c (concat (map (shadow_copies S) ts)) db"
  using assms
proof (induction ts arbitrary: ids db)
  case Nil
  then show ?case by simp
next
  case (Cons t ts)
  from Cons.prems(2) obtain i rest where ids: "ids = i # rest"
    and gi: "get i = Inr (root_node t)" and grest: "map get rest = map (\<lambda>t. Inr (root_node t)) ts"
    by (cases ids) auto
  have step: "body (root_node t) db = insert_all ins c (shadow_copies S t) db"
    using Cons.prems(1) by simp
  have rest: "\<And>db'. for_each_child body get rest db' = insert_all ins c (concat (map (shadow_copies S) ts)) db'"
    using Cons.IH [OF _ grest] Cons.prems(1) by simp
  show ?case
    by (simp add: ids gi step rest insert_all_append split: sum.splits)
qed

lemma recursive_helper_tree:
  "shared_tree (get c) t \<Longrightarrow> height t \<le> depth \<Longrightarrow>
   recursive_helper depth get ins c S (root_node t) db = insert_all ins c (shadow_copies S t) db"
proof (induction t arbitrary: depth db)
  case (MNode n ts)
  from MNode.prems(2) obtain d where depth: "depth = Suc d" and hd: "fold max (map height ts) 0 \<le> d"
    by (cases depth) auto
  have sub: "\<And>t db. t \<in> set ts \<Longrightarrow>
      recursive_helper d get ins c S (root_node t) db = insert_all ins c (shadow_copies S t) db"
  proof -
    fix t db assume t: "t \<in> set ts"
    have "height t \<le> fold max (map height ts) 0"
      using t by (intro fold_max_member) simp
    with hd have "height t \<le> d" by simp
    moreover have "shared_tree (get c) t"
      using MNode.prems(1) t by (simp add: list_all_iff)
    ultimately show "recursive_helper d get ins c S (root_node t) db = insert_all ins c (shadow_copies S t) db"
      using MNode.IH t by blast
  qed
  have ids: "map (get c) (child_ids n) = map (\<lambda>t. Inr (root_node t)) ts"
    using MNode.prems(1) by simp
  have loop: "\<And>db'. for_each_child (recursive_helper d get ins c S) (get c) (child_ids n) db'
      = insert_all ins c (concat (map (shadow_copies S) ts)) db'"
    using for_each_child_subtrees [OF sub ids] by blast
  have tail: "\<And>db'. (case children_ids n of None \<Rightarrow> Inr db'
       | Some ids \<Rightarrow> if ids = [] then Inr db'
                     else for_each_child (recursive_helper d get ins c S) (get c) ids db')
      = insert_all ins c (concat (map (shadow_copies S) ts)) db'"
    using loop by (auto simp: child_ids_def split: option.splits)
  show ?case
    by (simp add: depth shadow_copies_MNode tail insert_all_append split: sum.splits)
qed

lemma portal_clone_tree:
  assumes "get c ''root'' = Inr (root_node t)" "shared_tree (get c) t" "height t \<le> depth"
  shows "portal_clone depth get ins c S db = insert_all ins c (shadow_copies S t) db"
  using assms by (simp add: portal_clone_def recursive_helper_tree)

lemma insert_all_record:
  "insert_all record_insert c kns db = Inr (db @ map (\<lambda>(key, n). (c, key, n)) kns)"
  by (induction kns arbitrary: db) (auto simp: record_insert_def)

lemma demo_root: "demo_get ''actions'' ''root'' = Inr (root_node demo_tree)"
  by (simp add: demo_get_def demo_nodes_def demo_tree_def)

lemma demo_shared: "shared_tree (demo_get ''actions'') demo_tree"
  by (simp add: demo_get_def demo_nodes_def demo_tree_def child_ids_def demo_node_def)

lemma demo_height: "height demo_tree \<le> 3"
  by (simp add: demo_tree_def)

lemma demo_copies:
  "shadow_copies ''s1'' demo_tree =
     [(''s1_a'', demo_node ''a'' ''portal'' None), (''s1_c'', demo_node ''c'' ''portal'' (Some []))]"
  by (simp add: shadow_copies_def demo_tree_def demo_node_def)

text \<open>
  C3: when the part of the shared store reachable from the root is the tree \<open>t\<close>
  (every node's subtrees are what the store returns for the ids of its
  \<^verbatim>\<open>children_ids\<close>, in order) and the interpreter allows the nesting, the clone visits
  the nodes of \<open>t\<close> depth first and performs exactly the inserts of the portal nodes
  among them, one for each, under the key made of the instance id, an underscore and
  the node's id, and none for a node of another type. With a store that records its
  inserts, the documents written are exactly these, in the order of the walk.
\<close>

theorem portal_clone_copies_portals:
  assumes "get collection ''root'' = Inr (root_node t)"
    and "shared_tree (get collection) t"
    and "height t \<le> depth"
  shows "portal_clone depth get ins collection swarm_id db =
           insert_all ins collection
             (map (\<lambda>n. (swarm_id @ ''_'' @ node_id n, n))
                (filter (\<lambda>n. node_type n = ''portal'') (preorder t))) db
         \<and> portal_clone depth get record_insert collection swarm_id written =
             Inr (written @ map (\<lambda>n. (collection, swarm_id @ ''_'' @ node_id n, n))
                              (filter (\<lambda>n. node_type n = ''portal'') (preorder t)))"
proof -
  have a: "portal_clone depth get ins collection swarm_id db =
             insert_all ins collection (shadow_copies swarm_id t) db"
    using assms by (rule portal_clone_tree)
  have b: "portal_clone depth get record_insert collection swarm_id written =
             insert_all record_insert collection (shadow_copies swarm_id t) written"
    using assms by (rule portal_clone_tree)
  show ?thesis
    using a b by (simp add: insert_all_record shadow_copies_def comp_def)
qed

theorem portal_clone_copies_portals_witness:
  "demo_get ''actions'' ''root'' = Inr (root_node demo_tree)
   \<and> shared_tree (demo_get ''actions'') demo_tree
   \<and> height demo_tree \<le> 3
   \<and> portal_clone 3 demo_get record_insert ''actions'' ''s1'' [] =
       Inr [(''actions'', ''s1_a'', demo_node ''a'' ''portal'' None),
            (''actions'', ''s1_c'', demo_node ''c'' ''portal'' (Some []))]"
proof -
  have "portal_clone 3 demo_get record_insert ''actions'' ''s1'' [] =
       Inr [(''actions'', ''s1_a'', demo_node ''a'' ''portal'' None),
            (''actions'', ''s1_c'', demo_node ''c'' ''portal'' (Some []))]"
    using portal_clone_copies_portals [where get = demo_get and collection = "''actions''"
        and t = demo_tree and depth = 3 and ins = record_insert and swarm_id = "''s1''"
        and db = "[]" and written = "[]", OF demo_root demo_shared demo_height, THEN conjunct2]
    by (simp add: demo_tree_def demo_node_def)
  with demo_root demo_shared demo_height show ?thesis by blast
qed

text \<open>
  C4: the clone is not idempotent. After a first clone for an instance has
  returned, a second clone for the same instance performs the insert of every portal
  node again, whatever the instance's store holds by then: the store is never read.
  With a store that records its inserts, every shadow copy is written a second time,
  so the second clone changes the store whenever the tree has a portal node.
\<close>

theorem portal_clone_inserts_again:
  assumes "get collection ''root'' = Inr (root_node t)"
    and "shared_tree (get collection) t"
    and "height t \<le> depth"
  shows "(portal_clone depth get ins collection swarm_id db = Inr db1 \<longrightarrow>
            portal_clone depth get ins collection swarm_id db1 =
              insert_all ins collection (shadow_copies swarm_id t) db1)
         \<and> portal_clone depth get record_insert collection swarm_id written =
             Inr (written @ shadow_documents collection swarm_id t)
         \<and> portal_clone depth get record_insert collection swarm_id
               (written @ shadow_documents collection swarm_id t) =
             Inr (written @ shadow_documents collection swarm_id t @ shadow_documents collection swarm_id t)
         \<and> (shadow_copies swarm_id t \<noteq> [] \<longrightarrow>
              portal_clone depth get record_insert collection swarm_id
                  (written @ shadow_documents collection swarm_id t) \<noteq>
                Inr (written @ shadow_documents collection swarm_id t))"
  using assms by (simp add: portal_clone_tree insert_all_record shadow_documents_def)

theorem portal_clone_inserts_again_witness:
  "portal_clone 3 demo_get record_insert ''actions'' ''s1'' [] =
       Inr [(''actions'', ''s1_a'', demo_node ''a'' ''portal'' None),
            (''actions'', ''s1_c'', demo_node ''c'' ''portal'' (Some []))]
   \<and> portal_clone 3 demo_get record_insert ''actions'' ''s1''
         [(''actions'', ''s1_a'', demo_node ''a'' ''portal'' None),
          (''actions'', ''s1_c'', demo_node ''c'' ''portal'' (Some []))] =
       Inr [(''actions'', ''s1_a'', demo_node ''a'' ''portal'' None),
            (''actions'', ''s1_c'', demo_node ''c'' ''portal'' (Some [])),
            (''actions'', ''s1_a'', demo_node ''a'' ''portal'' None),
            (''actions'', ''s1_c'', demo_node ''c'' ''portal'' (Some []))]"
  using portal_clone_inserts_again [where get = demo_get and collection = "''actions''" and t = demo_tree
      and depth = 3 and ins = record_insert and swarm_id = "''s1''" and db = "[]" and written = "[]"
      and ?db1.0 = "[(''actions'', ''s1_a'', demo_node ''a'' ''portal'' None),
                     (''actions'', ''s1_c'', demo_node ''c'' ''portal'' (Some []))]",
      OF demo_root demo_shared demo_height]
  by (simp add: shadow_documents_def demo_copies)

section \<open>The action resolver, the key-value store and the termination operation\<close>

lemma inject_unset_first:
  "find (unset cfgs) required = Some k \<Longrightarrow>
   inject_required_configs cfgs required params =
     Inl (if attrs cfgs k = None
          then AttributeError (quoted (type_name cfgs) @ '' object has no attribute '' @ quoted k)
          else config_not_found k)"
proof (induction required arbitrary: params)
  case Nil
  then show ?case by simp
next
  case (Cons c cs)
  show ?case
  proof (cases "unset cfgs c")
    case True
    with Cons.prems have "k = c" by simp
    with True show ?thesis
      by (auto simp: unset_def getattr_def split: option.splits)
  next
    case False
    then obtain v where "attrs cfgs c = Some (Some v)"
      by (auto simp: unset_def split: option.splits)
    moreover from False Cons.prems have "find (unset cfgs) cs = Some k" by simp
    ultimately show ?thesis
      using Cons.IH by (simp add: getattr_def)
  qed
qed

lemma inject_all_set:
  "find (unset cfgs) required = None \<Longrightarrow> \<exists>params'. inject_required_configs cfgs required params = Inr params'"
proof (induction required arbitrary: params)
  case Nil
  then show ?case by simp
next
  case (Cons c cs)
  from Cons.prems have c: "\<not> unset cfgs c" and cs: "find (unset cfgs) cs = None"
    by (auto split: if_splits)
  from c obtain v where "attrs cfgs c = Some (Some v)"
    by (auto simp: unset_def split: option.splits)
  then show ?case using Cons.IH [OF cs] by (simp add: getattr_def)
qed

lemma names_missing_attribute:
  "names (AttributeError (quoted ty @ '' object has no attribute '' @ quoted k)) k"
proof -
  have "str (AttributeError (quoted ty @ '' object has no attribute '' @ quoted k)) =
        (quoted ty @ '' object has no attribute '' @ [CHR 0x27]) @ k @ [CHR 0x27]"
    by (simp add: quoted_def)
  then show ?thesis
    unfolding names_def by (simp only: sublist_appendI)
qed

lemma names_config_not_found: "names (config_not_found k) k"
proof -
  have "str (config_not_found k) =
        (CHR 0x27 # ''Config '') @ k @ ('' not found in swarm configs or value is None'' @ [CHR 0x27])"
    by (simp add: quoted_def config_not_found_def)
  then show ?thesis
    unfolding names_def by (simp only: sublist_appendI)
qed

lemma unset_error_names:
  "names (if attrs cfgs k = None
          then AttributeError (quoted (type_name cfgs) @ '' object has no attribute '' @ quoted k)
          else config_not_found k) k"
  using names_missing_attribute [of "type_name cfgs" k] names_config_not_found [of k]
  by (cases "attrs cfgs k = None") simp_all

lemma action_never_returns:
  "action get_action_space_metadata import_module action_id params swarm_id \<noteq> Inr r"
  by (simp add: action_def module_path_def read_local_def split: sum.splits option.splits)

lemma action_after_configs:
  "get_action_space_metadata swarm_id = Inr action_space_metadata \<Longrightarrow>
   action_space_metadata action_id = Some metadata \<Longrightarrow>
   action get_action_space_metadata import_module action_id params swarm_id =
     (case inject_required_configs (configs swarm_id) (required_configs metadata) params of
        Inl e \<Rightarrow> Inl e
      | Inr params' \<Rightarrow> Inl (UnboundLocalError ''action_type''))"
  by (simp add: action_def module_path_def read_local_def split: sum.splits)

text \<open>
  C5, as stated, asks the error to name every required key that is unset. The loop
  stops at the first one: for an action that requires \<^verbatim>\<open>mongo_uri\<close> and \<^verbatim>\<open>root_path\<close>,
  both absent, the error names \<^verbatim>\<open>mongo_uri\<close> and does not name \<^verbatim>\<open>root_path\<close>.
\<close>

theorem missing_second_key_counterexample:
  "action demo_metadata demo_import ''actions/two.py'' Map.empty demo_swarm_id =
     Inl (AttributeError (quoted ''Configs'' @ '' object has no attribute '' @ quoted ''mongo_uri''))
   \<and> map_of demo_actions ''actions/two.py'' = Some \<lparr>required_configs = [''mongo_uri'', ''root_path'']\<rparr>
   \<and> unset (configs demo_swarm_id) ''root_path''
   \<and> \<not> names (AttributeError (quoted ''Configs'' @ '' object has no attribute '' @ quoted ''mongo_uri''))
          ''root_path''"
  by code_simp

text \<open>
  C5, amended: for every action with metadata, if a required configuration key is
  absent from the instance's configuration or holds \<^verbatim>\<open>None\<close>, the resolver raises an
  error whose message names the first required key, in the order of the list, that
  is unset; the error is the same for every import, so it is raised before any entry
  point is looked up or invoked.
\<close>

theorem missing_config_raises:
  fixes import_module :: "string \<Rightarrow> error + (string \<Rightarrow> 'v option, 'r) py_module"
  assumes "get_action_space_metadata swarm_id = Inr action_space_metadata"
    and "action_space_metadata action_id = Some metadata"
    and "k \<in> set (required_configs metadata)"
    and "unset (configs swarm_id) k"
  shows "\<exists>k' e. first_unset (configs swarm_id) (required_configs metadata) = Some k'
           \<and> action get_action_space_metadata import_module action_id params swarm_id = Inl e
           \<and> names e k'
           \<and> (\<forall>import_module' :: string \<Rightarrow> error + (string \<Rightarrow> 'v option, 'r) py_module.
                 action get_action_space_metadata import_module' action_id params swarm_id = Inl e)"
proof -
  have "find (unset (configs swarm_id)) (required_configs metadata) \<noteq> None"
    using assms(3,4) by (simp add: find_None_iff) blast
  then obtain k' where k': "find (unset (configs swarm_id)) (required_configs metadata) = Some k'"
    by blast
  define e where "e = (if attrs (configs swarm_id) k' = None
            then AttributeError (quoted (type_name (configs swarm_id)) @ '' object has no attribute '' @ quoted k')
            else config_not_found k')"
  have inj: "inject_required_configs (configs swarm_id) (required_configs metadata) params = Inl e"
    unfolding e_def by (rule inject_unset_first [OF k'])
  have act: "action get_action_space_metadata imp action_id params swarm_id = Inl e"
    for imp :: "string \<Rightarrow> error + (string \<Rightarrow> 'v option, 'r) py_module"
    using action_after_configs [where get_action_space_metadata = get_action_space_metadata
        and swarm_id = swarm_id and action_space_metadata = action_space_metadata
        and action_id = action_id and metadata = metadata and import_module = imp and params = params,
        OF assms(1,2)]
    by (simp add: inj)
  have nm: "names e k'" unfolding e_def by (rule unset_error_names)
  have fu: "first_unset (configs swarm_id) (required_configs metadata) = Some k'"
    using k' by (simp add: first_unset_def)
  have "first_unset (configs swarm_id) (required_configs metadata) = Some k'
           \<and> action get_action_space_metadata import_module action_id params swarm_id = Inl e
           \<and> names e k'
           \<and> (\<forall>import_module' :: string \<Rightarrow> error + (string \<Rightarrow> 'v option, 'r) py_module.
                 action get_action_space_metadata import_module' action_id params swarm_id = Inl e)"
    using fu act nm by simp
  then show ?thesis by (intro exI)
qed

theorem missing_config_raises_witness:
  "unset (configs demo_swarm_id) ''azure_key''
   \<and> (\<exists>k' e. first_unset (configs demo_swarm_id) [''openai_key'', ''azure_key''] = Some k'
           \<and> action demo_metadata demo_import ''actions/none.py'' Map.empty demo_swarm_id = Inl e
           \<and> names e k')"
proof -
  have u: "unset (configs demo_swarm_id) ''azure_key''"
    by (simp add: unset_def demo_swarm_id_def demo_configs_def)
  have m: "demo_metadata demo_swarm_id =
      Inr (map_of demo_actions)"
    by (simp add: demo_metadata_def)
  have a: "map_of demo_actions ''actions/none.py''
       = Some \<lparr>required_configs = [''openai_key'', ''azure_key'']\<rparr>"
    by (simp add: demo_actions_def)
  have k: "''azure_key'' \<in> set (required_configs \<lparr>required_configs = [''openai_key'', ''azure_key'']\<rparr>)"
    by simp
  show ?thesis
    using u missing_config_raises [where get_action_space_metadata = demo_metadata
        and swarm_id = demo_swarm_id and action_id = "''actions/none.py''"
        and metadata = "\<lparr>required_configs = [''openai_key'', ''azure_key'']\<rparr>"
        and k = "''azure_key''" and import_module = demo_import and params = Map.empty,
        OF m a k u] by auto
qed

text \<open>
  C10: when the action has metadata and every required configuration key holds a
  value, the resolver raises \<^verbatim>\<open>UnboundLocalError\<close> for \<^verbatim>\<open>action_type\<close>, which line 28
  reads before anything has assigned it; and on no input at all does the resolver
  return the result of an entry point.
\<close>

theorem action_reads_unbound_local:
  fixes import_module :: "string \<Rightarrow> error + (string \<Rightarrow> 'v option, 'r) py_module"
  assumes "get_action_space_metadata swarm_id = Inr action_space_metadata"
    and "action_space_metadata action_id = Some metadata"
    and "\<forall>c \<in> set (required_configs metadata). \<exists>v. attrs (configs swarm_id) c = Some (Some v)"
  shows "action get_action_space_metadata import_module action_id params swarm_id =
           Inl (UnboundLocalError ''action_type'')
         \<and> (\<forall>import_module' action_id' params' swarm_id' r.
              action get_action_space_metadata
                  (import_module' :: string \<Rightarrow> error + (string \<Rightarrow> 'v option, 'r) py_module)
                  action_id' params' swarm_id' \<noteq> Inr r)"
proof -
  have "\<not> unset (configs swarm_id) c" if "c \<in> set (required_configs metadata)" for c
    using assms(3) that by (auto simp: unset_def)
  then have "find (unset (configs swarm_id)) (required_configs metadata) = None"
    by (simp add: find_None_iff)
  then obtain params' where
    inj: "inject_required_configs (configs swarm_id) (required_configs metadata) params = Inr params'"
    using inject_all_set by blast
  have "action get_action_space_metadata import_module action_id params swarm_id =
           Inl (UnboundLocalError ''action_type'')"
    using action_after_configs [where get_action_space_metadata = get_action_space_metadata
        and swarm_id = swarm_id and action_space_metadata = action_space_metadata
        and action_id = action_id and metadata = metadata and import_module = import_module
        and params = params, OF assms(1,2)]
    by (simp add: inj)
  then show ?thesis
    by (simp add: action_never_returns)
qed

theorem action_reads_unbound_local_witness:
  "attrs (configs demo_swarm_id) ''openai_key'' = Some (Some ''sk-1'')
   \<and> action demo_metadata demo_import ''actions/ok.py'' Map.empty demo_swarm_id =
        Inl (UnboundLocalError ''action_type'')"
proof -
  have m: "demo_metadata demo_swarm_id =
      Inr (map_of demo_actions)"
    by (simp add: demo_metadata_def)
  have a: "map_of demo_actions ''actions/ok.py''
       = Some \<lparr>required_configs = [''openai_key'']\<rparr>"
    by (simp add: demo_actions_def)
  have c: "\<forall>c \<in> set (required_configs \<lparr>required_configs = [''openai_key'']\<rparr>).
             \<exists>v. attrs (configs demo_swarm_id) c = Some (Some v)"
    by (simp add: demo_swarm_id_def demo_configs_def)
  have "action demo_metadata demo_import ''actions/ok.py'' Map.empty demo_swarm_id =
        Inl (UnboundLocalError ''action_type'')"
    using action_reads_unbound_local [where get_action_space_metadata = demo_metadata
        and swarm_id = demo_swarm_id and action_id = "''actions/ok.py''"
        and metadata = "\<lparr>required_configs = [''openai_key'']\<rparr>"
        and import_module = demo_import and params = Map.empty, OF m a c]
    by simp
  moreover have "attrs (configs demo_swarm_id) ''openai_key'' = Some (Some ''sk-1'')"
    by (simp add: demo_swarm_id_def demo_configs_def)
  ultimately show ?thesis by simp
qed





text \<open>
  C8, as stated, fails: for a key that has no row, \<^verbatim>\<open>fetchone()\<close> returns \<^verbatim>\<open>None\<close>,
  indexing it raises, and the \<^verbatim>\<open>except\<close> clause raises \<^verbatim>\<open>ValueError\<close>; the function
  does not return \<^verbatim>\<open>None\<close>.
\<close>

theorem retrieve_missing_counterexample:
  "retrieve_value_from_sqlite3 demo_files ''kv.sqlite3'' ''absent'' =
     Inl (ValueError (''Failed to retrieve value from SQLite3: '' @ quoted ''NoneType'' @
                      '' object is not subscriptable''))
   \<and> retrieve_value_from_sqlite3 demo_files ''kv.sqlite3'' ''absent'' \<noteq> Inr None"
  by (simp add: retrieve_value_from_sqlite3_def select_value_def demo_files_def fetchone_def
      first_column_def)

text \<open>
  C8, amended: for every key that is not present in the key-value table,
  \<^verbatim>\<open>retrieve_value_from_sqlite3\<close> raises \<^verbatim>\<open>ValueError\<close> with the message
  \<^verbatim>\<open>Failed to retrieve value from SQLite3:\<close> followed by the text of the inner
  \<^verbatim>\<open>TypeError\<close>, rather than returning \<^verbatim>\<open>None\<close>.
\<close>

theorem retrieve_missing_raises:
  assumes "files sqlite3_db_path = KvStore table"
    and "table key = None"
  shows "retrieve_value_from_sqlite3 files sqlite3_db_path key =
           Inl (ValueError (''Failed to retrieve value from SQLite3: '' @ quoted ''NoneType'' @
                            '' object is not subscriptable''))"
  using assms
  by (simp add: retrieve_value_from_sqlite3_def select_value_def fetchone_def first_column_def)

theorem retrieve_missing_raises_witness:
  "demo_files ''kv.sqlite3'' = KvStore (map_of [(''stored'', Some ''{}''), (''null'', None)])
   \<and> map_of [(''stored'', Some ''{}''), (''null'', None)] ''absent'' = None
   \<and> retrieve_value_from_sqlite3 demo_files ''kv.sqlite3'' ''absent'' =
        Inl (ValueError (''Failed to retrieve value from SQLite3: '' @ quoted ''NoneType'' @
                         '' object is not subscriptable''))"
proof -
  have f: "demo_files ''kv.sqlite3'' = KvStore (map_of [(''stored'', Some ''{}''), (''null'', None)])"
    by (simp add: demo_files_def)
  have k: "map_of [(''stored'', Some ''{}''), (''null'', None :: string option)] ''absent'' = None"
    by simp
  show ?thesis
    using f k retrieve_missing_raises [where files = demo_files, OF f k] by simp
qed

lemma missing_target_rejected:
  assumes "map_of kwargs ''target_node_id'' = None"
  shows "\<exists>ps. TerminationOperation generate_uuid kwargs = Inl (ValidationError ps)
          \<and> (''target_node_id'', Missing) \<in> set ps"
proof -
  have t: "required_str ''target_node_id'' kwargs = Inl [(''target_node_id'', Missing)]"
    using assms by (simp add: required_str_def)
  show ?thesis
    unfolding TerminationOperation_def Let_def t
    by (simp split: sum.splits)
qed

lemma required_str_Inr:
  "required_str field kwargs = Inr s \<Longrightarrow> map_of kwargs field = Some (PyStr s)"
  by (auto simp: required_str_def split: option.splits py_value.splits)

lemma constructed_carries_both:
  assumes "TerminationOperation generate_uuid kwargs = Inr operation"
  shows "map_of kwargs ''terminator_node_id'' = Some (PyStr (terminator_node_id operation))
         \<and> map_of kwargs ''target_node_id'' = Some (PyStr (target_node_id operation))"
proof -
  from assms obtain a b where a: "required_str ''terminator_node_id'' kwargs = Inr a"
    and b: "required_str ''target_node_id'' kwargs = Inr b"
    and o: "terminator_node_id operation = a" "target_node_id operation = b"
    unfolding TerminationOperation_def Let_def
    by (cases "required_str ''terminator_node_id'' kwargs"; cases "required_str ''target_node_id'' kwargs")
       (auto split: sum.splits)
  from a b o show ?thesis by (simp add: required_str_Inr)
qed

lemma body_passes_keywords:
  assumes "log (''ai'', completion) w = (Inr (), w1)"
    and "report (final_report node completion) w1 = (Inr (), w2)"
  shows "terminate_conversation_body log report termination_operation node completion w =
           (termination_operation
              [(''node_id'', PyStr (swarm_node_id node)),
               (''terminator_node_id'', PyStr (swarm_node_id node))], w2)"
  using assms by (simp add: terminate_conversation_body_def bind_w_def)

text \<open>
  C7, as stated, fails on the constructions of the code: the body of
  \<^verbatim>\<open>terminate_conversation\<close>, on the node \<^verbatim>\<open>n1\<close>, calls the constructor with the
  keywords \<^verbatim>\<open>node_id\<close> and \<^verbatim>\<open>terminator_node_id\<close>, and the unit test calls it with
  \<^verbatim>\<open>node_id\<close> only; neither call supplies \<^verbatim>\<open>target_node_id\<close>.
\<close>

theorem construction_keywords_counterexample:
  "terminate_conversation_body demo_log demo_report passed_keywords demo_swarm_node ''done'' [] =
     (Inr [(''node_id'', PyStr ''n1''), (''terminator_node_id'', PyStr ''n1'')],
      [''ai: done'', ''report''])
   \<and> map_of [(''node_id'', PyStr ''n1''), (''terminator_node_id'', PyStr ''n1'')] ''target_node_id'' = None
   \<and> test_terminate_operation passed_keywords ''n2'' = Inr [(''node_id'', PyStr ''n2'')]
   \<and> map_of [(''node_id'', PyStr ''n2'')] ''target_node_id'' = None"
  by (simp add: terminate_conversation_body_def bind_w_def demo_log_def demo_report_def
      passed_keywords_def demo_swarm_node_def test_terminate_operation_def)

text \<open>
  C7, amended: a termination operation of swarm\_operations.py carries a
  \<^verbatim>\<open>terminator_node_id\<close> and a \<^verbatim>\<open>target_node_id\<close>, both taken from the keywords of its
  construction, the context is optional, and a construction without
  \<^verbatim>\<open>target_node_id\<close> is rejected by validation. The constructions in the code, whose
  class is imported from modules outside this development, do not pass these two
  keywords: the method \<^verbatim>\<open>terminate_conversation\<close> is the decorator applied to a body
  that, once the log and the report have returned, calls the constructor with the
  keywords \<^verbatim>\<open>node_id\<close> and \<^verbatim>\<open>terminator_node_id\<close>, both the id of the node; the unit
  test calls it with \<^verbatim>\<open>node_id\<close> only.
\<close>

theorem termination_operation_fields:
  "(TerminationOperation generate_uuid kwargs = Inr operation \<longrightarrow>
      map_of kwargs ''terminator_node_id'' = Some (PyStr (terminator_node_id operation))
      \<and> map_of kwargs ''target_node_id'' = Some (PyStr (target_node_id operation)))
   \<and> TerminationOperation generate_uuid
        [(''terminator_node_id'', PyStr terminator), (''target_node_id'', PyStr target)] =
      Inr \<lparr>op_id = generate_uuid ''termination_op'', operation_type = ''terminate'',
           terminator_node_id = terminator, target_node_id = target, op_context = None\<rparr>
   \<and> (map_of kwargs' ''target_node_id'' = None \<longrightarrow>
        (\<exists>ps. TerminationOperation generate_uuid kwargs' = Inl (ValidationError ps)
          \<and> (''target_node_id'', Missing) \<in> set ps))
   \<and> terminate_conversation receive_completion_handler log report termination_operation node =
        receive_completion_handler (terminate_conversation_body log report termination_operation node)
   \<and> (log (''ai'', completion) w = (Inr (), w1) \<longrightarrow>
       report (final_report node completion) w1 = (Inr (), w2) \<longrightarrow>
       terminate_conversation_body log report termination_operation node completion w =
         (termination_operation
            [(''node_id'', PyStr (swarm_node_id node)),
             (''terminator_node_id'', PyStr (swarm_node_id node))], w2))
   \<and> test_terminate_operation termination_operation' second_node_id =
        termination_operation' [(''node_id'', PyStr second_node_id)]"
proof -
  have a: "TerminationOperation generate_uuid kwargs = Inr operation \<longrightarrow>
      map_of kwargs ''terminator_node_id'' = Some (PyStr (terminator_node_id operation))
      \<and> map_of kwargs ''target_node_id'' = Some (PyStr (target_node_id operation))"
    using constructed_carries_both [of generate_uuid kwargs operation] by blast
  have b: "TerminationOperation generate_uuid
        [(''terminator_node_id'', PyStr terminator), (''target_node_id'', PyStr target)] =
      Inr \<lparr>op_id = generate_uuid ''termination_op'', operation_type = ''terminate'',
           terminator_node_id = terminator, target_node_id = target, op_context = None\<rparr>"
    by (simp add: TerminationOperation_def required_str_def)
  have c: "map_of kwargs' ''target_node_id'' = None \<longrightarrow>
        (\<exists>ps. TerminationOperation generate_uuid kwargs' = Inl (ValidationError ps)
          \<and> (''target_node_id'', Missing) \<in> set ps)"
    using missing_target_rejected [of kwargs' generate_uuid] by blast
  have d: "terminate_conversation receive_completion_handler log report termination_operation node =
        receive_completion_handler (terminate_conversation_body log report termination_operation node)"
    by (simp add: terminate_conversation_def)
  have e: "log (''ai'', completion) w = (Inr (), w1) \<longrightarrow>
       report (final_report node completion) w1 = (Inr (), w2) \<longrightarrow>
       terminate_conversation_body log report termination_operation node completion w =
         (termination_operation
            [(''node_id'', PyStr (swarm_node_id node)),
             (''terminator_node_id'', PyStr (swarm_node_id node))], w2)"
    using body_passes_keywords [of log completion w w1 report node w2 termination_operation] by blast
  have f: "test_terminate_operation termination_operation' second_node_id =
        termination_operation' [(''node_id'', PyStr second_node_id)]"
    by (simp add: test_terminate_operation_def)
  from a b c d e f show ?thesis by blast
qed

theorem termination_operation_fields_witness:
  "TerminationOperation demo_uuid [(''terminator_node_id'', PyStr ''n1''), (''target_node_id'', PyStr ''n0'')] =
      Inr \<lparr>op_id = ''termination_op_0001'', operation_type = ''terminate'',
           terminator_node_id = ''n1'', target_node_id = ''n0'', op_context = None\<rparr>
   \<and> map_of [(''node_id'', PyStr ''n1''), (''terminator_node_id'', PyStr ''n1'')] ''target_node_id'' = None
   \<and> TerminationOperation demo_uuid [(''node_id'', PyStr ''n1''), (''terminator_node_id'', PyStr ''n1'')] =
        Inl (ValidationError [(''target_node_id'', Missing)])
   \<and> demo_log (''ai'', ''done'') [] = (Inr (), [''ai: done''])
   \<and> demo_report (final_report demo_swarm_node ''done'') [''ai: done''] = (Inr (), [''ai: done'', ''report''])
   \<and> terminate_conversation_body demo_log demo_report passed_keywords demo_swarm_node ''done'' [] =
        (Inr [(''node_id'', PyStr ''n1''), (''terminator_node_id'', PyStr ''n1'')],
         [''ai: done'', ''report''])"
proof -
  note th = termination_operation_fields [where generate_uuid = demo_uuid
      and kwargs = "[(''terminator_node_id'', PyStr ''n1''), (''target_node_id'', PyStr ''n0'')]"
      and operation = "\<lparr>op_id = ''termination_op_0001'', operation_type = ''terminate'',
           terminator_node_id = ''n1'', target_node_id = ''n0'', op_context = None\<rparr>"
      and terminator = "''n1''" and target = "''n0''"
      and kwargs' = "[(''node_id'', PyStr ''n1''), (''terminator_node_id'', PyStr ''n1'')]"
      and log = demo_log and report = demo_report and termination_operation = passed_keywords
      and node = demo_swarm_node and completion = "''done''" and w = "[]"
      and ?w1.0 = "[''ai: done'']" and ?w2.0 = "[''ai: done'', ''report'']"
      and receive_completion_handler = "\<lambda>f. f" and termination_operation' = passed_keywords
      and second_node_id = "''n2''"]
  have l: "demo_log (''ai'', ''done'') [] = (Inr (), [''ai: done''])"
    by (simp add: demo_log_def)
  have r: "demo_report (final_report demo_swarm_node ''done'') [''ai: done''] = (Inr (), [''ai: done'', ''report''])"
    by (simp add: demo_report_def)
  have k: "map_of [(''node_id'', PyStr ''n1''), (''terminator_node_id'', PyStr ''n1'')] ''target_node_id'' = None"
    by simp
  have c: "TerminationOperation demo_uuid [(''terminator_node_id'', PyStr ''n1''), (''target_node_id'', PyStr ''n0'')] =
      Inr \<lparr>op_id = ''termination_op_0001'', operation_type = ''terminate'',
           terminator_node_id = ''n1'', target_node_id = ''n0'', op_context = None\<rparr>"
  proof -
    from th have "TerminationOperation demo_uuid
        [(''terminator_node_id'', PyStr ''n1''), (''target_node_id'', PyStr ''n0'')] =
      Inr \<lparr>op_id = demo_uuid ''termination_op'', operation_type = ''terminate'',
           terminator_node_id = ''n1'', target_node_id = ''n0'', op_context = None\<rparr>"
      by blast
    then show ?thesis by (simp add: demo_uuid_def)
  qed
  have b: "terminate_conversation_body demo_log demo_report passed_keywords demo_swarm_node ''done'' [] =
        (Inr [(''node_id'', PyStr ''n1''), (''terminator_node_id'', PyStr ''n1'')],
         [''ai: done'', ''report''])"
  proof -
    from th l r have "terminate_conversation_body demo_log demo_report passed_keywords demo_swarm_node ''done'' [] =
        (passed_keywords [(''node_id'', PyStr (swarm_node_id demo_swarm_node)),
                          (''terminator_node_id'', PyStr (swarm_node_id demo_swarm_node))],
         [''ai: done'', ''report''])"
      by blast
    then show ?thesis by (simp add: passed_keywords_def demo_swarm_node_def)
  qed
  have "TerminationOperation demo_uuid [(''node_id'', PyStr ''n1''), (''terminator_node_id'', PyStr ''n1'')] =
        Inl (ValidationError [(''target_node_id'', Missing)])"
    by (simp add: TerminationOperation_def required_str_def)
  with c k l r b show ?thesis by blast
qed

end
